theory Spec2Isabelle
  imports Complex_Main
begin

section \<open>Python values\<close>

text \<open>
  A Python \<open>str\<close> is a sequence of Unicode code points, so it is modelled as a list of
  natural numbers: \<open>len\<close> is \<open>length\<close>, the slice \<open>s[:n]\<close> is \<open>take n s\<close> and \<open>+\<close> is
  \<open>@\<close>. ASCII literals of the source are written with \<open>ascii\<close>; the Russian literals are
  given by their code points, with a transliteration beside them (\<open><LF>\<close> is the line
  feed, code point 10).
\<close>

type_synonym pystr = "nat list"

definition ascii :: "string \<Rightarrow> pystr" where
  "ascii s = map of_char s"

text \<open>The operator \<open>needle in haystack\<close> on strings: a scan over the start positions.\<close>

fun starts_with :: "pystr \<Rightarrow> pystr \<Rightarrow> bool" where
  "starts_with s [] = True"
| "starts_with [] (c # p) = False"
| "starts_with (d # s) (c # p) = (d = c \<and> starts_with s p)"

fun py_in :: "pystr \<Rightarrow> pystr \<Rightarrow> bool" where
  "py_in needle [] = (needle = [])"
| "py_in needle (c # s) = (starts_with (c # s) needle \<or> py_in needle s)"

text \<open>\<open>str(n)\<close> for an integer: decimal digits, with a minus sign below zero.\<close>

fun digits :: "nat \<Rightarrow> pystr" where
  "digits n = (if n < 10 then [48 + n] else digits (n div 10) @ [48 + n mod 10])"

declare digits.simps [simp del]

definition str_int :: "int \<Rightarrow> pystr" where
  "str_int i = (if i < 0 then 45 # digits (nat (- i)) else digits (nat i))"

text \<open>\<open>s.replace("'", "''")\<close>: every apostrophe (code point 39) is doubled.\<close>

definition escape_quotes :: "pystr \<Rightarrow> pystr" where
  "escape_quotes s = concat (map (\<lambda>c. if c = 39 then [39, 39] else [c]) s)"

text \<open>
  \<open>s.strip()\<close> removes leading and trailing white space; \<open>isspace\<close> lists the code points
  for which Python's \<open>str.isspace\<close> holds.
\<close>

definition isspace :: "nat \<Rightarrow> bool" where
  "isspace c \<longleftrightarrow>
     (9 \<le> c \<and> c \<le> 13) \<or> (28 \<le> c \<and> c \<le> 32) \<or> c = 133 \<or> c = 160 \<or> c = 5760 \<or>
     (8192 \<le> c \<and> c \<le> 8202) \<or> c = 8232 \<or> c = 8233 \<or> c = 8239 \<or> c = 8287 \<or> c = 12288"

definition strip :: "pystr \<Rightarrow> pystr" where
  "strip s = rev (dropWhile isspace (rev (dropWhile isspace s)))"

text \<open>\<open>sep.join(parts)\<close>.\<close>

fun join :: "pystr \<Rightarrow> pystr list \<Rightarrow> pystr" where
  "join sep [] = []"
| "join sep [p] = p"
| "join sep (p # q # ps) = p @ sep @ join sep (q # ps)"

text \<open>
  Python floats are idealised as rationals. \<open>round(x, 4)\<close> and the format \<open>{x:.2%}\<close> round
  to the nearest value, ties to the even neighbour.
\<close>

definition round_half_even :: "rat \<Rightarrow> int" where
  "round_half_even x =
     (let f = \<lfloor>x\<rfloor>; r = x - of_int f
      in if r < 1 / 2 then f else if 1 / 2 < r then f + 1 else if even f then f else f + 1)"

definition round4 :: "rat \<Rightarrow> rat" where
  "round4 x = of_int (round_half_even (x * 10000)) / 10000"

definition two_digits :: "nat \<Rightarrow> pystr" where
  "two_digits n = [48 + n div 10, 48 + n mod 10]"

definition format_percent :: "rat \<Rightarrow> pystr" where
  "format_percent x =
     (let n = nat (round_half_even (\<bar>x\<bar> * 10000))
      in (if x < 0 then [45] else []) @ digits (n div 100) @ [46] @ two_digits (n mod 100) @ [37])"

text \<open>
  JSON values as they occur in document metadata (\<open>Dict[str, Any]\<close>); floats and nested
  containers are left out. A Python dict with string keys is an association list read
  with \<open>map_of\<close>; it is falsy exactly when it is empty.
\<close>

datatype jvalue = JNull | JBool bool | JInt int | JStr pystr

type_synonym pydict = "(pystr \<times> jvalue) list"

fun str_jvalue :: "jvalue \<Rightarrow> pystr" where
  "str_jvalue JNull = ascii ''None''"
| "str_jvalue (JBool b) = (if b then ascii ''True'' else ascii ''False'')"
| "str_jvalue (JInt i) = str_int i"
| "str_jvalue (JStr s) = s"

definition dict_get :: "pydict \<Rightarrow> pystr \<Rightarrow> jvalue \<Rightarrow> jvalue" where
  "dict_get d k dflt = (case map_of d k of None \<Rightarrow> dflt | Some v \<Rightarrow> v)"

text \<open>Every exception of the source is a plain \<open>Exception\<close>; the payload is \<open>str(e)\<close>.\<close>

datatype error = Exception pystr

fun message_of :: "error \<Rightarrow> pystr" where
  "message_of (Exception m) = m"

section \<open>The completion function of the LightRAG service\<close>

text \<open>
  \<open>lmstudio_completion_func\<close> (lightrag-service/app.py) builds the message list that it
  sends to the chat endpoint. \<open>str.lower\<close> is a parameter of the model; \<open>ascii_lower\<close>
  agrees with it on ASCII text and serves to evaluate examples.
\<close>

datatype role = System | User

type_synonym chat_message = "role \<times> pystr"

definition extraction_keywords :: "pystr list" where
  "extraction_keywords =
     [ascii ''extract'', ascii ''entity'', ascii ''relation'', ascii ''entity'',
      ascii ''relationship'', ascii ''knowledge'']"

text \<open>\<^verbatim>\<open><LF><LF>KRITICHESKI VAZHNO: Izvlekayte TOL'KO informatsiyu, ... NE izvlekayte eyo.\<close> (310 code points)\<close>

definition STRICT_DIRECTIVE :: pystr where
  "STRICT_DIRECTIVE =
    [10, 10, 1050, 1056, 1048, 1058, 1048, 1063, 1045, 1057, 1050, 1048, 32, 1042, 1040,
     1046, 1053, 1054, 58, 32, 1048, 1079, 1074, 1083, 1077, 1082, 1072, 1081, 1090, 1077,
     32, 1058, 1054, 1051, 1068, 1050, 1054, 32, 1080, 1085, 1092, 1086, 1088, 1084, 1072,
     1094, 1080, 1102, 44, 32, 1082, 1086, 1090, 1086, 1088, 1072, 1103, 32, 1071, 1042,
     1053, 1054, 32, 1080, 32, 1044, 1054, 1057, 1051, 1054, 1042, 1053, 1054, 32, 1087,
     1088, 1080, 1089, 1091, 1090, 1089, 1090, 1074, 1091, 1077, 1090, 32, 1074, 32, 1087,
     1088, 1077, 1076, 1086, 1089, 1090, 1072, 1074, 1083, 1077, 1085, 1085, 1086, 1084, 32,
     1090, 1077, 1082, 1089, 1090, 1077, 46, 32, 1053, 1045, 32, 1080, 1089, 1087, 1086,
     1083, 1100, 1079, 1091, 1081, 1090, 1077, 32, 1074, 1072, 1096, 1080, 32, 1079, 1085,
     1072, 1085, 1080, 1103, 32, 1080, 1079, 32, 1086, 1073, 1091, 1095, 1072, 1102, 1097,
     1080, 1093, 32, 1076, 1072, 1085, 1085, 1099, 1093, 46, 32, 1053, 1045, 32, 1076, 1086,
     1073, 1072, 1074, 1083, 1103, 1081, 1090, 1077, 32, 1080, 1085, 1092, 1086, 1088, 1084,
     1072, 1094, 1080, 1102, 44, 32, 1082, 1086, 1090, 1086, 1088, 1086, 1081, 32, 1085,
     1077, 1090, 32, 1074, 32, 1090, 1077, 1082, 1089, 1090, 1077, 46, 32, 1053, 1045, 32,
     1087, 1088, 1080, 1076, 1091, 1084, 1099, 1074, 1072, 1081, 1090, 1077, 32, 1092, 1072,
     1082, 1090, 1099, 44, 32, 1089, 1086, 1073, 1099, 1090, 1080, 1103, 32, 1080, 1083,
     1080, 32, 1086, 1090, 1085, 1086, 1096, 1077, 1085, 1080, 1103, 46, 32, 1045, 1089,
     1083, 1080, 32, 1080, 1085, 1092, 1086, 1088, 1084, 1072, 1094, 1080, 1103, 32, 1086,
     1090, 1089, 1091, 1090, 1089, 1090, 1074, 1091, 1077, 1090, 32, 1074, 32, 1090, 1077,
     1082, 1089, 1090, 1077, 44, 32, 1053, 1045, 32, 1080, 1079, 1074, 1083, 1077, 1082,
     1072, 1081, 1090, 1077, 32, 1077, 1105, 46]"

definition lmstudio_completion_messages ::
  "(pystr \<Rightarrow> pystr) \<Rightarrow> pystr option \<Rightarrow> pystr \<Rightarrow> chat_message list" where
  "lmstudio_completion_messages lower system_prompt prompt =
     (case system_prompt of
        None \<Rightarrow> []
      | Some sp \<Rightarrow>
          if sp = [] then []
          else
            let prompt_lower = lower sp;
                strict_system_prompt =
                  (if list_ex (\<lambda>keyword. py_in keyword prompt_lower) extraction_keywords
                   then sp @ STRICT_DIRECTIVE
                   else sp)
            in [(System, strict_system_prompt)])
     @ [(User, prompt)]"

definition ascii_lower :: "pystr \<Rightarrow> pystr" where
  "ascii_lower s = map (\<lambda>c. if 65 \<le> c \<and> c \<le> 90 then c + 32 else c) s"

section \<open>The GraphRAG core\<close>

subsection \<open>Stored data\<close>

text \<open>
  The tables \<open>documents\<close> and \<open>document_nodes\<close>, and the property graph \<open>knowledge_graph\<close>
  with its \<open>Document\<close> vertices. The source creates no edge; edges written by others are
  triples of a vertex position, a relationship type and a vertex position.
\<close>

record document =
  doc_id :: int
  doc_content :: pystr
  doc_embedding :: "rat list option"
  doc_metadata :: "pydict option"

record graph_node =
  gn_doc_id :: int
  gn_preview :: pystr
  gn_source :: pystr
  gn_length :: nat

record document_node =
  dn_document_id :: int
  dn_node_id :: int
  dn_node_type :: pystr
  dn_properties :: pydict

record database =
  documents :: "document list"
  document_nodes :: "document_node list"
  graph_nodes :: "graph_node list"
  graph_edges :: "(nat \<times> pystr \<times> nat) list"

subsection \<open>Rows and results of a query\<close>

text \<open>A row of the \<open>SELECT\<close> of \<open>query\<close>: id, content, metadata, similarity.\<close>

record hit =
  hit_id :: int
  hit_content :: pystr
  hit_metadata :: "pydict option"
  hit_similarity :: rat

record source =
  src_id :: int
  src_content :: pystr
  src_similarity :: rat
  src_metadata :: "pydict option"

record graph_summary =
  nodes_found :: nat
  has_relationships :: bool
  sample_nodes :: nat

record query_result =
  answer :: pystr
  sources :: "source list"
  graph_context :: "graph_summary option"

subsection \<open>The object and its collaborators\<close>

text \<open>
  A \<open>GraphRAG\<close> object holds its configuration and its handles to the embedding and chat
  endpoints and to the database. The remote sides are functions of the request: \<open>Inl m\<close>
  (or \<open>Some m\<close> for a statement) means that the call raises an exception \<open>e\<close> with
  \<open>str(e) = m\<close>. For the two endpoints this covers reading the reply as well
  (\<open>response.data[0].embedding\<close>, \<open>response.choices[0].message.content\<close>).
  \<open>select_documents\<close> gives the rows that the server returns for the \<open>SELECT\<close> of
  \<open>query\<close> when it accepts the statement; the three failure functions are the answers
  of the graph extension and of the table \<open>document_nodes\<close> to statements that reach
  them.
\<close>

record graph_rag =
  embedding_dimensions :: int
  embeddings_create :: "pystr \<Rightarrow> pystr + rat list"
  chat_completions_create :: "pystr \<Rightarrow> pystr \<Rightarrow> pystr + pystr"
  select_documents :: "database \<Rightarrow> rat list \<Rightarrow> int \<Rightarrow> rat \<Rightarrow> hit list"
  cypher_create_failure :: "int \<Rightarrow> pystr option"
  insert_node_failure :: "int \<Rightarrow> pystr option"
  cypher_match_failure :: "int list \<Rightarrow> pystr option"

text \<open>
  What an operation can change: the committed database, the sequence behind
  \<open>documents.id\<close>, the log, and the requests sent to the two endpoints.
\<close>

datatype level = INFO | WARNING | ERROR

datatype event =
    GeneratingEmbedding
  | SavingDocument
  | CreatingGraphNodes
  | DocumentAdded int
  | IngestFailed pystr
  | EmbeddingSizeMismatch nat int
  | EmbeddingFailed pystr
  | GraphNodeCreated int
  | GraphNodeFailed pystr
  | GeneratingQueryEmbedding
  | SearchingDocuments
  | DocumentsFound nat
  | NoDocumentsFound
  | FetchingGraphContext
  | GeneratingAnswer
  | QueryFailed pystr
  | GraphContextFailed pystr
  | AnswerGenerated
  | GenerationFailed pystr
  | DocumentDeleted int
  | DeleteFailed pystr

datatype call = EmbeddingsCreate pystr | ChatCompletionsCreate pystr pystr

record world =
  committed :: database
  documents_id_seq :: int
  log :: "(level \<times> event) list"
  calls :: "call list"

definition logger :: "level \<Rightarrow> event \<Rightarrow> world \<Rightarrow> world" where
  "logger lv ev w = w\<lparr>log := log w @ [(lv, ev)]\<rparr>"

definition request :: "call \<Rightarrow> world \<Rightarrow> world" where
  "request c w = w\<lparr>calls := calls w @ [c]\<rparr>"

subsection \<open>\<open>_get_embedding\<close>\<close>

text \<open>\<^verbatim>\<open>Ne udalos' poluchit' embedding: \<close> (31 code points)\<close>

definition EMBEDDING_ERROR_PREFIX :: pystr where
  "EMBEDDING_ERROR_PREFIX =
    [1053, 1077, 32, 1091, 1076, 1072, 1083, 1086, 1089, 1100, 32, 1087, 1086, 1083, 1091,
     1095, 1080, 1090, 1100, 32, 1101, 1084, 1073, 1077, 1076, 1076, 1080, 1085, 1075, 58,
     32]"

definition get_embedding :: "graph_rag \<Rightarrow> pystr \<Rightarrow> world \<Rightarrow> (error + rat list) \<times> world" where
  "get_embedding rag txt w =
     (let w1 = request (EmbeddingsCreate txt) w
      in case embeddings_create rag txt of
           Inl m \<Rightarrow>
             (Inl (Exception (EMBEDDING_ERROR_PREFIX @ m)), logger ERROR (EmbeddingFailed m) w1)
         | Inr embedding \<Rightarrow>
             (Inr embedding,
              if int (length embedding) \<noteq> embedding_dimensions rag
              then logger WARNING
                     (EmbeddingSizeMismatch (length embedding) (embedding_dimensions rag)) w1
              else w1))"

subsection \<open>Sessions and statements\<close>

text \<open>
  A session works on a copy of the committed database inside one transaction of the
  server. When the server refuses a statement the transaction is aborted: every later
  statement of the session is refused as well, and \<open>commit\<close> then ends the transaction
  without storing anything, and without raising. \<open>rollback\<close> and \<open>close\<close> drop the copy.
\<close>

record session =
  pending :: database
  aborted :: bool

definition begin_session :: "world \<Rightarrow> session" where
  "begin_session w = \<lparr>pending = committed w, aborted = False\<rparr>"

definition commit :: "session \<Rightarrow> world \<Rightarrow> world" where
  "commit s w = (if aborted s then w else w\<lparr>committed := pending s\<rparr>)"

text \<open>
  \<open>text(sql)\<close> looks for bind parameters in the statement: a colon that does not follow a
  colon, a word character or a backslash, then a name of word characters, is a
  parameter unless the name is followed by a colon. \<open>placeholders\<close> scans a statement and
  returns each such name, with \<open>True\<close> when a colon follows it: that name is no parameter
  for \<open>text\<close> and reaches the server as it is written, together with its colon. The
  statements of the source are ASCII, so the word characters are letters, digits and the
  underscore. The first argument is the character before the text.
\<close>

definition is_word :: "nat \<Rightarrow> bool" where
  "is_word c \<longleftrightarrow> (48 \<le> c \<and> c \<le> 57) \<or> (65 \<le> c \<and> c \<le> 90) \<or> c = 95 \<or> (97 \<le> c \<and> c \<le> 122)"

fun placeholders :: "nat \<Rightarrow> pystr \<Rightarrow> (pystr \<times> bool) list" where
  "placeholders prev [] = []"
| "placeholders prev (c # s) =
     (if c = 58 \<and> prev \<noteq> 58 \<and> \<not> is_word prev \<and> prev \<noteq> 92 \<and> takeWhile is_word s \<noteq> []
      then [(takeWhile is_word s,
             case dropWhile is_word s of [] \<Rightarrow> False | n # rest \<Rightarrow> n = 58)]
      else [])
     @ placeholders c s"

definition bind_names :: "pystr \<Rightarrow> pystr list" where
  "bind_names sql = map fst (filter (\<lambda>(name, colon). \<not> colon) (placeholders 32 sql))"

definition unbound_names :: "pystr \<Rightarrow> pystr list" where
  "unbound_names sql = map fst (filter (\<lambda>(name, colon). colon) (placeholders 32 sql))"

text \<open>The messages of the three ways in which a statement is refused.\<close>

definition VALUE_REQUIRED :: "pystr \<Rightarrow> pystr" where
  "VALUE_REQUIRED name = ascii ''A value is required for bind parameter '' @ [39] @ name @ [39]"

definition IN_FAILED_TRANSACTION :: pystr where
  "IN_FAILED_TRANSACTION =
     ascii ''current transaction is aborted, commands ignored until end of transaction block''"

definition SYNTAX_ERROR :: pystr where
  "SYNTAX_ERROR = ascii ''syntax error at or near '' @ [34, 58, 34]"

text \<open>
  \<open>session.execute(text(sql), params)\<close>, where \<open>supplied\<close> are the keys of \<open>params\<close> and
  \<open>server_failure\<close> is the answer of the server to a statement that it can parse. The
  result is \<open>None\<close> when the statement has run, and the message of the exception with
  the session as the failure leaves it otherwise. A parameter without a value is
  refused before anything is sent; the server refuses every statement of an aborted
  transaction, and a statement in which a colon and a name are left; keys of \<open>params\<close>
  that are no parameter of the statement are ignored.
\<close>

definition execute ::
  "session \<Rightarrow> pystr \<Rightarrow> pystr list \<Rightarrow> pystr option \<Rightarrow> (pystr \<times> session) option" where
  "execute s sql supplied server_failure =
     (case filter (\<lambda>name. name \<notin> set supplied) (bind_names sql) of
        name # names \<Rightarrow> Some (VALUE_REQUIRED name, s)
      | [] \<Rightarrow>
          if aborted s then Some (IN_FAILED_TRANSACTION, s)
          else
            (case unbound_names sql of
               name # names \<Rightarrow> Some (SYNTAX_ERROR, s\<lparr>aborted := True\<rparr>)
             | [] \<Rightarrow>
                 (case server_failure of
                    Some m \<Rightarrow> Some (m, s\<lparr>aborted := True\<rparr>)
                  | None \<Rightarrow> None)))"

text \<open>
  The cast \<open>::vector(n)\<close> of the vector extension refuses a vector of another length.
\<close>

definition vector_cast :: "int \<Rightarrow> rat list \<Rightarrow> pystr option" where
  "vector_cast n v =
     (if int (length v) \<noteq> n
      then Some (ascii ''expected '' @ str_int n @ ascii '' dimensions, not '' @
                 str_int (int (length v)))
      else None)"

subsection \<open>The statements of the source\<close>

text \<open>
  The texts passed to \<open>text\<close>, character by character; \<open>dims\<close> is
  \<open>self.embedding_dimensions\<close>, which the two f-strings insert.
\<close>

definition INSERT_DOCUMENT_1 :: pystr where
  "INSERT_DOCUMENT_1 =
     [10] @
     ascii ''                    INSERT INTO documents (content, embedding, metadata)'' @
     [10] @
     ascii ''                    VALUES (:content, :embedding::vector(''"

definition INSERT_DOCUMENT_2 :: pystr where
  "INSERT_DOCUMENT_2 =
     ascii ''), :metadata::jsonb)'' @
     [10] @
     ascii ''                    RETURNING id'' @
     [10] @
     ascii ''                ''"

definition insert_document_sql :: "int \<Rightarrow> pystr" where
  "insert_document_sql dims = INSERT_DOCUMENT_1 @ str_int dims @ INSERT_DOCUMENT_2"

definition create_node_sql :: pystr where
  "create_node_sql =
     [10] @
     ascii ''                    SELECT * FROM cypher('knowledge_graph', $$'' @
     [10] @
     ascii ''                        CREATE (d:Document {'' @
     [10] @
     ascii ''                            doc_id: $doc_id,'' @
     [10] @
     ascii ''                            preview: $preview,'' @
     [10] @
     ascii ''                            source: $source,'' @
     [10] @
     ascii ''                            length: $length'' @
     [10] @
     ascii ''                        })'' @
     [10] @
     ascii ''                        RETURN d'' @
     [10] @
     ascii ''                    $$) as (node agtype);'' @
     [10] @
     ascii ''                ''"

definition insert_node_sql :: pystr where
  "insert_node_sql =
     [10] @
     ascii ''                    INSERT INTO document_nodes (document_id, node_id, node_type, properties)'' @
     [10] @
     ascii ''                    VALUES (:doc_id, :node_id, 'Document', :props)'' @
     [10] @
     ascii ''                ''"

definition SEARCH_1 :: pystr where
  "SEARCH_1 =
     [10] @
     ascii ''                    SELECT '' @
     [10] @
     ascii ''                        id,'' @
     [10] @
     ascii ''                        content,'' @
     [10] @
     ascii ''                        metadata,'' @
     [10] @
     ascii ''                        1 - (embedding <=> :embedding::vector(''"

definition SEARCH_2 :: pystr where
  "SEARCH_2 =
     ascii '')) as similarity'' @
     [10] @
     ascii ''                    FROM documents'' @
     [10] @
     ascii ''                    WHERE embedding IS NOT NULL'' @
     [10] @
     ascii ''                      AND (1 - (embedding <=> :embedding::vector(''"

definition SEARCH_3 :: pystr where
  "SEARCH_3 =
     ascii ''))) >= :threshold'' @
     [10] @
     ascii ''                    ORDER BY embedding <=> :embedding::vector(''"

definition SEARCH_4 :: pystr where
  "SEARCH_4 =
     ascii '')'' @
     [10] @
     ascii ''                    LIMIT :limit'' @
     [10] @
     ascii ''                ''"

definition search_sql :: "int \<Rightarrow> pystr" where
  "search_sql dims =
     SEARCH_1 @ str_int dims @ SEARCH_2 @ str_int dims @ SEARCH_3 @ str_int dims @ SEARCH_4"

definition match_sql :: pystr where
  "match_sql =
     [10] @
     ascii ''                    SELECT * FROM cypher('knowledge_graph', $$'' @
     [10] @
     ascii ''                        MATCH (d:Document)'' @
     [10] @
     ascii ''                        WHERE d.doc_id IN $doc_ids'' @
     [10] @
     ascii ''                        OPTIONAL MATCH (d)-[r]-(related)'' @
     [10] @
     ascii ''                        RETURN d, type(r) as rel_type, related'' @
     [10] @
     ascii ''                        LIMIT 20'' @
     [10] @
     ascii ''                    $$) as (doc agtype, rel_type agtype, related agtype);'' @
     [10] @
     ascii ''                ''"

definition delete_sql :: pystr where
  "delete_sql =
     ascii ''DELETE FROM documents WHERE id = :id''"

subsection \<open>\<open>_create_graph_nodes\<close> and \<open>ingest_document\<close>\<close>

definition source_key :: pystr where
  "source_key = ascii ''source''"

text \<open>The class name in the \<open>AttributeError\<close> of \<open>.replace\<close> on a value that is no string.\<close>

fun type_name :: "jvalue \<Rightarrow> pystr" where
  "type_name JNull = ascii ''NoneType''"
| "type_name (JBool b) = ascii ''bool''"
| "type_name (JInt i) = ascii ''int''"
| "type_name (JStr s) = ascii ''str''"

definition no_replace :: "jvalue \<Rightarrow> pystr" where
  "no_replace v =
     [39] @ type_name v @ [39] @ ascii '' object has no attribute '' @ [39] @ ascii ''replace'' @ [39]"

text \<open>
  Every exception inside \<open>_create_graph_nodes\<close> is caught and logged as a warning. One
  raised by \<open>.replace\<close> leaves the session untouched; one raised by a statement leaves
  the transaction of the session aborted.
\<close>

definition create_graph_nodes ::
  "graph_rag \<Rightarrow> session \<Rightarrow> int \<Rightarrow> pystr \<Rightarrow> pydict \<Rightarrow> world \<Rightarrow> session \<times> world" where
  "create_graph_nodes rag s d_id content metadata w =
     (let preview = escape_quotes (take 200 content)
      in case dict_get metadata source_key (JStr (ascii ''unknown'')) of
           JStr src \<Rightarrow>
             (let source = escape_quotes src
              in case execute s create_node_sql
                        [ascii ''doc_id'', ascii ''preview'', ascii ''source'', ascii ''length'']
                        (cypher_create_failure rag d_id) of
                   Some (m, s1) \<Rightarrow> (s1, logger WARNING (GraphNodeFailed m) w)
                 | None \<Rightarrow>
                     (let s1 = s\<lparr>pending := (pending s)\<lparr>graph_nodes := graph_nodes (pending s) @
                            [\<lparr>gn_doc_id = d_id, gn_preview = preview, gn_source = source,
                              gn_length = length content\<rparr>]\<rparr>\<rparr>
                      in case execute s1 insert_node_sql
                                [ascii ''doc_id'', ascii ''node_id'', ascii ''props'']
                                (insert_node_failure rag d_id) of
                           Some (m, s2) \<Rightarrow> (s2, logger WARNING (GraphNodeFailed m) w)
                         | None \<Rightarrow>
                             (s1\<lparr>pending := (pending s1)\<lparr>document_nodes :=
                                document_nodes (pending s1) @
                                [\<lparr>dn_document_id = d_id, dn_node_id = d_id,
                                  dn_node_type = ascii ''Document'',
                                  dn_properties = [(source_key, JStr src)]\<rparr>]\<rparr>\<rparr>,
                              logger INFO (GraphNodeCreated d_id) w)))
         | v \<Rightarrow> (s, logger WARNING (GraphNodeFailed (no_replace v)) w))"

text \<open>
  In \<open>ingest_document\<close> an exception of the embedding or of the \<open>INSERT\<close> reaches the
  \<open>except\<close> branch: \<open>rollback\<close>, an error in the log, and the exception raised again.
\<close>

definition ingest_document ::
  "graph_rag \<Rightarrow> pystr \<Rightarrow> pydict option \<Rightarrow> world \<Rightarrow> (error + int) \<times> world" where
  "ingest_document rag content metadata w =
     (let s = begin_session w;
          w1 = logger INFO GeneratingEmbedding w
      in case get_embedding rag content w1 of
           (Inl e, w2) \<Rightarrow> (Inl e, logger ERROR (IngestFailed (message_of e)) w2)
         | (Inr embedding, w2) \<Rightarrow>
             (let md = (case metadata of None \<Rightarrow> [] | Some m \<Rightarrow> m);
                  w3 = logger INFO SavingDocument w2
              in case execute s (insert_document_sql (embedding_dimensions rag))
                        [ascii ''content'', ascii ''embedding'', ascii ''metadata'']
                        (vector_cast (embedding_dimensions rag) embedding) of
                   Some (m, s1) \<Rightarrow> (Inl (Exception m), logger ERROR (IngestFailed m) w3)
                 | None \<Rightarrow>
                     (let new_id = documents_id_seq w3 + 1;
                          s1 = s\<lparr>pending := (pending s)\<lparr>documents := documents (pending s) @
                            [\<lparr>doc_id = new_id, doc_content = content,
                              doc_embedding = Some embedding, doc_metadata = Some md\<rparr>]\<rparr>\<rparr>;
                          w4 = logger INFO CreatingGraphNodes (w3\<lparr>documents_id_seq := new_id\<rparr>);
                          (s2, w5) = create_graph_nodes rag s1 new_id content md w4;
                          w6 = commit s2 w5
                      in (Inr new_id, logger INFO (DocumentAdded new_id) w6))))"

subsection \<open>\<open>_get_graph_context\<close>\<close>

text \<open>
  The Cypher query: every \<open>Document\<close> vertex whose \<open>doc_id\<close> is among the ids, once for
  each edge that touches it, or once with no relationship when none does;
  \<open>LIMIT 20\<close>. A row is the vertex, the relationship type and the position of the
  related vertex.
\<close>

type_synonym graph_row = "graph_node \<times> pystr option \<times> nat option"

definition related :: "database \<Rightarrow> nat \<Rightarrow> (pystr \<times> nat) list" where
  "related db i =
     concat (map (\<lambda>(a, t, b). (if a = i then [(t, b)] else []) @ (if b = i \<and> a \<noteq> i then [(t, a)] else []))
                 (graph_edges db))"

definition cypher_match :: "database \<Rightarrow> int list \<Rightarrow> graph_row list" where
  "cypher_match db doc_ids =
     take 20 (concat (map
       (\<lambda>(i, d).
          if gn_doc_id d \<in> set doc_ids
          then (case related db i of
                  [] \<Rightarrow> [(d, None, None)]
                | rs \<Rightarrow> map (\<lambda>(t, r). (d, Some t, Some r)) rs)
          else [])
       (enumerate 0 (graph_nodes db))))"

definition get_graph_context ::
  "graph_rag \<Rightarrow> session \<Rightarrow> hit list \<Rightarrow> world \<Rightarrow> graph_summary option \<times> world" where
  "get_graph_context rag s docs w =
     (let doc_ids = map hit_id docs
      in case execute s match_sql [ascii ''doc_ids''] (cypher_match_failure rag doc_ids) of
           Some (m, s1) \<Rightarrow> (None, logger WARNING (GraphContextFailed m) w)
         | None \<Rightarrow>
             (let graph_data = cypher_match (pending s) doc_ids
              in if graph_data = [] then (None, w)
                 else (Some \<lparr>nodes_found = length graph_data,
                              has_relationships = list_ex (\<lambda>(d, rel_type, r). rel_type \<noteq> None) graph_data,
                              sample_nodes = length graph_data\<rparr>, w)))"

subsection \<open>\<open>_build_context\<close>\<close>

text \<open>\<^verbatim>\<open>Kontekst iz bazy znaniy:<LF>\<close> (25 code points)\<close>

definition CONTEXT_HEADER :: pystr where
  "CONTEXT_HEADER =
    [1050, 1086, 1085, 1090, 1077, 1082, 1089, 1090, 32, 1080, 1079, 32, 1073, 1072, 1079,
     1099, 32, 1079, 1085, 1072, 1085, 1080, 1081, 58, 10]"

text \<open>\<^verbatim>\<open><LF>[Dokument \<close> (11 code points)\<close>

definition DOC_OPEN :: pystr where
  "DOC_OPEN =
    [10, 91, 1044, 1086, 1082, 1091, 1084, 1077, 1085, 1090, 32]"

text \<open>\<^verbatim>\<open> | Relevantnost': \<close> (18 code points)\<close>

definition DOC_RELEVANCE :: pystr where
  "DOC_RELEVANCE =
    [32, 124, 32, 1056, 1077, 1083, 1077, 1074, 1072, 1085, 1090, 1085, 1086, 1089, 1090,
     1100, 58, 32]"

text \<open>\<^verbatim>\<open> (Istochnik: \<close> (12 code points)\<close>

definition SOURCE_OPEN :: pystr where
  "SOURCE_OPEN =
    [32, 40, 1048, 1089, 1090, 1086, 1095, 1085, 1080, 1082, 58, 32]"

text \<open>\<^verbatim>\<open>neizvestno\<close> (10 code points)\<close>

definition UNKNOWN_RU :: pystr where
  "UNKNOWN_RU =
    [1085, 1077, 1080, 1079, 1074, 1077, 1089, 1090, 1085, 1086]"

text \<open>\<^verbatim>\<open><LF>[Grafovyy kontekst]: Naydeno \<close> (30 code points)\<close>

definition GRAPH_OPEN :: pystr where
  "GRAPH_OPEN =
    [10, 91, 1043, 1088, 1072, 1092, 1086, 1074, 1099, 1081, 32, 1082, 1086, 1085, 1090,
     1077, 1082, 1089, 1090, 93, 58, 32, 1053, 1072, 1081, 1076, 1077, 1085, 1086, 32]"

text \<open>\<^verbatim>\<open> svyazannykh uzlov v grafe znaniy.\<close> (32 code points)\<close>

definition GRAPH_CLOSE :: pystr where
  "GRAPH_CLOSE =
    [32, 1089, 1074, 1103, 1079, 1072, 1085, 1085, 1099, 1093, 32, 1091, 1079, 1083, 1086,
     1074, 32, 1074, 32, 1075, 1088, 1072, 1092, 1077, 32, 1079, 1085, 1072, 1085, 1080,
     1081, 46]"

text \<open>One entry of the context: the string appended for the document at position \<open>idx\<close>.\<close>

definition source_info :: "pydict \<Rightarrow> pystr" where
  "source_info metadata =
     (if metadata \<noteq> []
      then SOURCE_OPEN @ str_jvalue (dict_get metadata source_key (JStr UNKNOWN_RU)) @ ascii '')''
      else [])"

definition context_entry :: "nat \<Rightarrow> hit \<Rightarrow> pystr" where
  "context_entry idx doc =
     (let similarity = hit_similarity doc;
          content = hit_content doc;
          metadata = (case hit_metadata doc of None \<Rightarrow> [] | Some m \<Rightarrow> m)
      in DOC_OPEN @ digits idx @ DOC_RELEVANCE @ format_percent similarity @ ascii '']''
         @ source_info metadata @ ascii '':'' @ [10] @ content @ [10])"

text \<open>The loop \<open>for idx, doc in enumerate(documents, 1)\<close>, appending to \<open>context_parts\<close>.\<close>

fun context_loop :: "nat \<Rightarrow> hit list \<Rightarrow> pystr list \<Rightarrow> pystr list" where
  "context_loop idx [] context_parts = context_parts"
| "context_loop idx (doc # docs) context_parts =
     context_loop (idx + 1) docs (context_parts @ [context_entry idx doc])"

definition build_context :: "hit list \<Rightarrow> graph_summary option \<Rightarrow> pystr" where
  "build_context docs graph_ctx =
     (let context_parts = context_loop 1 docs [CONTEXT_HEADER];
          context_parts1 =
            (case graph_ctx of
               None \<Rightarrow> context_parts
             | Some g \<Rightarrow>
                 if 0 < nodes_found g
                 then context_parts @ [GRAPH_OPEN @ digits (nodes_found g) @ GRAPH_CLOSE]
                 else context_parts)
      in join [10] context_parts1)"

subsection \<open>\<open>_generate_answer\<close>\<close>

text \<open>\<^verbatim>\<open>the system message of _generate_answer: Ty - poleznyy assistent ... chetko i po sushchestvu.\<close> (228 code points)\<close>

definition SYSTEM_PROMPT :: pystr where
  "SYSTEM_PROMPT =
    [1058, 1099, 32, 45, 32, 1087, 1086, 1083, 1077, 1079, 1085, 1099, 1081, 32, 1072, 1089,
     1089, 1080, 1089, 1090, 1077, 1085, 1090, 32, 1076, 1083, 1103, 32, 1086, 1090, 1074,
     1077, 1090, 1086, 1074, 32, 1085, 1072, 32, 1074, 1086, 1087, 1088, 1086, 1089, 1099,
     32, 1087, 1086, 32, 1073, 1072, 1079, 1077, 32, 1079, 1085, 1072, 1085, 1080, 1081, 46,
     10, 1054, 1090, 1074, 1077, 1095, 1072, 1081, 32, 1058, 1054, 1051, 1068, 1050, 1054,
     32, 1085, 1072, 32, 1086, 1089, 1085, 1086, 1074, 1077, 32, 1087, 1088, 1077, 1076,
     1086, 1089, 1090, 1072, 1074, 1083, 1077, 1085, 1085, 1086, 1075, 1086, 32, 1082, 1086,
     1085, 1090, 1077, 1082, 1089, 1090, 1072, 46, 10, 1045, 1089, 1083, 1080, 32, 1074, 32,
     1082, 1086, 1085, 1090, 1077, 1082, 1089, 1090, 1077, 32, 1085, 1077, 1090, 32, 1080,
     1085, 1092, 1086, 1088, 1084, 1072, 1094, 1080, 1080, 32, 1076, 1083, 1103, 32, 1086,
     1090, 1074, 1077, 1090, 1072, 44, 32, 1095, 1077, 1089, 1090, 1085, 1086, 32, 1089,
     1082, 1072, 1078, 1080, 32, 1086, 1073, 32, 1101, 1090, 1086, 1084, 46, 10, 1054, 1090,
     1074, 1077, 1095, 1072, 1081, 32, 1085, 1072, 32, 1088, 1091, 1089, 1089, 1082, 1086,
     1084, 32, 1103, 1079, 1099, 1082, 1077, 44, 32, 1095, 1077, 1090, 1082, 1086, 32, 1080,
     32, 1087, 1086, 32, 1089, 1091, 1097, 1077, 1089, 1090, 1074, 1091, 46]"

text \<open>\<^verbatim>\<open><LF><LF>Vopros: \<close> (10 code points)\<close>

definition QUESTION_LABEL :: pystr where
  "QUESTION_LABEL =
    [10, 10, 1042, 1086, 1087, 1088, 1086, 1089, 58, 32]"

text \<open>\<^verbatim>\<open><LF><LF>Otvet:\<close> (8 code points)\<close>

definition ANSWER_LABEL :: pystr where
  "ANSWER_LABEL =
    [10, 10, 1054, 1090, 1074, 1077, 1090, 58]"

text \<open>\<^verbatim>\<open>K sozhaleniyu, proizoshla oshibka pri generatsii otveta: \<close> (52 code points)\<close>

definition GENERATION_ERROR_PREFIX :: pystr where
  "GENERATION_ERROR_PREFIX =
    [1050, 32, 1089, 1086, 1078, 1072, 1083, 1077, 1085, 1080, 1102, 44, 32, 1087, 1088,
     1086, 1080, 1079, 1086, 1096, 1083, 1072, 32, 1086, 1096, 1080, 1073, 1082, 1072, 32,
     1087, 1088, 1080, 32, 1075, 1077, 1085, 1077, 1088, 1072, 1094, 1080, 1080, 32, 1086,
     1090, 1074, 1077, 1090, 1072, 58, 32]"

definition generate_answer :: "graph_rag \<Rightarrow> pystr \<Rightarrow> pystr \<Rightarrow> world \<Rightarrow> pystr \<times> world" where
  "generate_answer rag question context w =
     (let user_content = context @ QUESTION_LABEL @ question @ ANSWER_LABEL;
          w1 = request (ChatCompletionsCreate SYSTEM_PROMPT user_content) w
      in case chat_completions_create rag SYSTEM_PROMPT user_content of
           Inl m \<Rightarrow> (GENERATION_ERROR_PREFIX @ m, logger ERROR (GenerationFailed m) w1)
         | Inr content \<Rightarrow> (strip content, logger INFO AnswerGenerated w1))"

subsection \<open>\<open>query\<close>\<close>

text \<open>\<^verbatim>\<open>K sozhaleniyu, ya ne nashel relevantnoy informatsii v baze znaniy dlya otveta na vash vopros.\<close> (86 code points)\<close>

definition NO_RELEVANT_ANSWER :: pystr where
  "NO_RELEVANT_ANSWER =
    [1050, 32, 1089, 1086, 1078, 1072, 1083, 1077, 1085, 1080, 1102, 44, 32, 1103, 32, 1085,
     1077, 32, 1085, 1072, 1096, 1077, 1083, 32, 1088, 1077, 1083, 1077, 1074, 1072, 1085,
     1090, 1085, 1086, 1081, 32, 1080, 1085, 1092, 1086, 1088, 1084, 1072, 1094, 1080, 1080,
     32, 1074, 32, 1073, 1072, 1079, 1077, 32, 1079, 1085, 1072, 1085, 1080, 1081, 32, 1076,
     1083, 1103, 32, 1086, 1090, 1074, 1077, 1090, 1072, 32, 1085, 1072, 32, 1074, 1072,
     1096, 32, 1074, 1086, 1087, 1088, 1086, 1089, 46]"

definition source_of :: "hit \<Rightarrow> source" where
  "source_of doc =
     \<lparr>src_id = hit_id doc, src_content = take 300 (hit_content doc),
      src_similarity = round4 (hit_similarity doc), src_metadata = hit_metadata doc\<rparr>"

text \<open>
  An exception of the embedding or of the \<open>SELECT\<close> reaches the \<open>except\<close> branch of
  \<open>query\<close>: an error in the log, and the exception raised again.
\<close>

definition query ::
  "graph_rag \<Rightarrow> pystr \<Rightarrow> int \<Rightarrow> bool \<Rightarrow> rat \<Rightarrow> world \<Rightarrow> (error + query_result) \<times> world" where
  "query rag question top_k use_graph similarity_threshold w =
     (let s = begin_session w;
          w1 = logger INFO GeneratingQueryEmbedding w
      in case get_embedding rag question w1 of
           (Inl e, w2) \<Rightarrow> (Inl e, logger ERROR (QueryFailed (message_of e)) w2)
         | (Inr question_embedding, w2) \<Rightarrow>
             (let w3 = logger INFO SearchingDocuments w2
              in case execute s (search_sql (embedding_dimensions rag))
                        [ascii ''embedding'', ascii ''limit'', ascii ''threshold'']
                        (vector_cast (embedding_dimensions rag) question_embedding) of
                   Some (m, s1) \<Rightarrow> (Inl (Exception m), logger ERROR (QueryFailed m) w3)
                 | None \<Rightarrow>
                     (let docs = select_documents rag (pending s) question_embedding top_k
                                   similarity_threshold;
                          w4 = logger INFO (DocumentsFound (length docs)) w3
                      in if docs = []
                         then (Inr \<lparr>answer = NO_RELEVANT_ANSWER, sources = [], graph_context = None\<rparr>,
                               logger WARNING NoDocumentsFound w4)
                         else
                           let (graph_ctx, w5) =
                                 (if use_graph \<and> docs \<noteq> []
                                  then get_graph_context rag s docs
                                         (logger INFO FetchingGraphContext w4)
                                  else (None, w4));
                               context = build_context docs graph_ctx;
                               (ans, w6) = generate_answer rag question context
                                             (logger INFO GeneratingAnswer w5)
                           in (Inr \<lparr>answer = ans, sources = map source_of docs,
                                     graph_context = graph_ctx\<rparr>, w6))))"

subsection \<open>\<open>delete_document\<close>\<close>

text \<open>\<^verbatim>\<open>Dokument s ID \<close> (14 code points)\<close>

definition NOT_FOUND_OPEN :: pystr where
  "NOT_FOUND_OPEN =
    [1044, 1086, 1082, 1091, 1084, 1077, 1085, 1090, 32, 1089, 32, 73, 68, 32]"

text \<open>\<^verbatim>\<open> ne nayden\<close> (10 code points)\<close>

definition NOT_FOUND_CLOSE :: pystr where
  "NOT_FOUND_CLOSE =
    [32, 1085, 1077, 32, 1085, 1072, 1081, 1076, 1077, 1085]"

definition delete_document :: "int \<Rightarrow> world \<Rightarrow> (error + unit) \<times> world" where
  "delete_document d_id w =
     (let session = committed w;
          remaining = filter (\<lambda>d. doc_id d \<noteq> d_id) (documents session);
          rowcount = length (documents session) - length remaining;
          session1 = session\<lparr>documents := remaining\<rparr>
      in if rowcount = 0
         then (let m = NOT_FOUND_OPEN @ str_int d_id @ NOT_FOUND_CLOSE
               in (Inl (Exception m), logger ERROR (DeleteFailed m) w))
         else (Inr (), logger INFO (DocumentDeleted d_id) (w\<lparr>committed := session1\<rparr>)))"

section \<open>Example objects\<close>

text \<open>
  A small installation used to evaluate the operations: embeddings have two components,
  the store holds one document with an empty metadata mapping and its graph vertex.
  \<open>chat_down\<close> is the same installation with a chat endpoint that times out,
  \<open>graph_down\<close> the one whose graph extension refuses the \<open>CREATE\<close>.
\<close>

definition example_rag :: graph_rag where
  "example_rag =
     \<lparr>embedding_dimensions = 2,
      embeddings_create = (\<lambda>t. Inr [1, 0]),
      chat_completions_create = (\<lambda>s u. Inr (ascii '' It is pgvector. '')),
      select_documents = (\<lambda>db e k t. []),
      cypher_create_failure = (\<lambda>i. None),
      insert_node_failure = (\<lambda>i. None),
      cypher_match_failure = (\<lambda>ids. None)\<rparr>"


definition graph_down :: graph_rag where
  "graph_down = example_rag\<lparr>cypher_create_failure := \<lambda>i. Some (ascii ''graph down'')\<rparr>"

definition example_document :: document where
  "example_document =
     \<lparr>doc_id = 7, doc_content = ascii ''pgvector'', doc_embedding = Some [5, 12],
      doc_metadata = Some []\<rparr>"

definition example_hit :: hit where
  "example_hit =
     \<lparr>hit_id = 7, hit_content = ascii ''pgvector'', hit_metadata = Some [],
      hit_similarity = 5 / 13\<rparr>"

definition example_database :: database where
  "example_database =
     \<lparr>documents = [example_document],
      document_nodes = [],
      graph_nodes = [\<lparr>gn_doc_id = 7, gn_preview = ascii ''pgvector'', gn_source = ascii ''unknown'',
                      gn_length = 8\<rparr>],
      graph_edges = []\<rparr>"

definition example_world :: world where
  "example_world = \<lparr>committed = example_database, documents_id_seq = 7, log = [], calls = []\<rparr>"

definition empty_world :: world where
  "empty_world =
     \<lparr>committed = \<lparr>documents = [], document_nodes = [], graph_nodes = [], graph_edges = []\<rparr>,
      documents_id_seq = 0, log = [], calls = []\<rparr>"

text \<open>
  A session of \<open>example_world\<close> in which the row of a new document with id 8 is
  pending: the state in which \<open>ingest_document\<close> would call \<open>_create_graph_nodes\<close>.
\<close>

definition pending_row :: session where
  "pending_row =
     \<lparr>pending = example_database\<lparr>documents :=
        [example_document,
         \<lparr>doc_id = 8, doc_content = ascii ''new text'', doc_embedding = Some [1, 0],
          doc_metadata = Some []\<rparr>]\<rparr>,
      aborted = False\<rparr>"

section \<open>Properties\<close>

subsection \<open>The completion function\<close>

lemma starts_with_iff: "starts_with s p \<longleftrightarrow> (\<exists>post. s = p @ post)"
  by (induction s p rule: starts_with.induct) auto

lemma py_in_iff: "py_in needle s \<longleftrightarrow> (\<exists>pre post. s = pre @ needle @ post)"
proof (induction s)
  case Nil
  then show ?case by auto
next
  case (Cons c s)
  show ?case
  proof
    assume "py_in needle (c # s)"
    then consider "starts_with (c # s) needle" | "py_in needle s" by auto
    then show "\<exists>pre post. c # s = pre @ needle @ post"
    proof cases
      case 1
      then obtain post where "c # s = needle @ post" by (auto simp: starts_with_iff)
      then have "c # s = [] @ needle @ post" by simp
      then show ?thesis by blast
    next
      case 2
      then obtain pre post where "s = pre @ needle @ post" using Cons.IH by blast
      then have "c # s = (c # pre) @ needle @ post" by simp
      then show ?thesis by blast
    qed
  next
    assume "\<exists>pre post. c # s = pre @ needle @ post"
    then obtain pre post where eq: "c # s = pre @ needle @ post" by blast
    show "py_in needle (c # s)"
    proof (cases pre)
      case Nil
      then have "starts_with (c # s) needle" using eq by (auto simp: starts_with_iff)
      then show ?thesis by simp
    next
      case (Cons a pre')
      then have "s = pre' @ needle @ post" using eq by simp
      then have "py_in needle s" using Cons.IH by blast
      then show ?thesis by simp
    qed
  qed
qed

lemma has_keyword_iff:
  "list_ex (\<lambda>keyword. py_in keyword s) extraction_keywords \<longleftrightarrow>
     (\<exists>k \<in> {ascii ''extract'', ascii ''entity'', ascii ''relation'', ascii ''relationship'',
              ascii ''knowledge''}. \<exists>pre post. s = pre @ k @ post)"
  unfolding extraction_keywords_def list_ex_iff py_in_iff[symmetric] by auto

text \<open>
  Claim C8. For every (non-empty) system prompt passed to the completion function, the
  message list holds one system message followed by the user message; the system message
  is the prompt with the strict directive appended if and only if the lowercased prompt
  contains one of the keywords "extract", "entity", "relation", "relationship",
  "knowledge", and the unchanged prompt otherwise. This holds for every lowercasing
  function. An empty or absent system prompt is the source's case of no system prompt:
  no system message is sent.
\<close>

theorem completion_directive_iff_keyword:
  assumes "sp \<noteq> []"
  shows "lmstudio_completion_messages lower (Some sp) prompt =
           [(System,
             if \<exists>k \<in> {ascii ''extract'', ascii ''entity'', ascii ''relation'',
                        ascii ''relationship'', ascii ''knowledge''}.
                  \<exists>pre post. lower sp = pre @ k @ post
             then sp @ STRICT_DIRECTIVE
             else sp),
            (User, prompt)]"
  using assms unfolding lmstudio_completion_messages_def Let_def has_keyword_iff by simp

lemma no_keyword_example:
  "\<not> list_ex (\<lambda>keyword. py_in keyword (ascii_lower (ascii ''Be brief''))) extraction_keywords"
  by (simp add: extraction_keywords_def ascii_def ascii_lower_def)

lemma keyword_example:
  "list_ex (\<lambda>keyword. py_in keyword (ascii_lower (ascii ''EXTRACT facts''))) extraction_keywords"
  by (simp add: extraction_keywords_def ascii_def ascii_lower_def)

theorem completion_directive_iff_keyword_witness:
  "ascii ''EXTRACT facts'' \<noteq> [] \<and> ascii ''Be brief'' \<noteq> [] \<and>
   lmstudio_completion_messages ascii_lower (Some (ascii ''EXTRACT facts'')) (ascii ''hi'') =
     [(System, ascii ''EXTRACT facts'' @ STRICT_DIRECTIVE), (User, ascii ''hi'')] \<and>
   lmstudio_completion_messages ascii_lower (Some (ascii ''Be brief'')) (ascii ''hi'') =
     [(System, ascii ''Be brief''), (User, ascii ''hi'')]"
proof -
  have a: "ascii ''EXTRACT facts'' \<noteq> []" and b: "ascii ''Be brief'' \<noteq> []"
    by (simp_all add: ascii_def)
  show ?thesis
    using a b
      completion_directive_iff_keyword [OF a, of ascii_lower "ascii ''hi''"]
      completion_directive_iff_keyword [OF b, of ascii_lower "ascii ''hi''"]
      keyword_example no_keyword_example
    unfolding has_keyword_iff by simp
qed

lemma completion_without_system_prompt:
  "lmstudio_completion_messages lower None prompt = [(User, prompt)]"
  "lmstudio_completion_messages lower (Some []) prompt = [(User, prompt)]"
  by (simp_all add: lmstudio_completion_messages_def)

subsection \<open>Deleting a document\<close>

lemma rowcount_zero_iff:
  "length xs - length (filter P xs) = 0 \<longleftrightarrow> (\<forall>x \<in> set xs. P x)"
proof
  assume "length xs - length (filter P xs) = 0"
  then have "length (filter P xs) = length xs"
    using length_filter_le [of P xs] by simp
  then show "\<forall>x \<in> set xs. P x"
    using length_filter_less [of _ xs P] by (metis less_irrefl)
next
  assume "\<forall>x \<in> set xs. P x"
  then show "length xs - length (filter P xs) = 0" by simp
qed

text \<open>
  Claim C7. For every id, \<open>delete_document\<close> raises the "not found" exception when no
  stored document has that id, and then leaves the committed database as it was; when a
  document with that id exists it returns normally and the committed table no longer
  holds a row with that id.
\<close>

theorem delete_document_fails_or_commits:
  "(d_id \<notin> doc_id ` set (documents (committed w)) \<longrightarrow>
      fst (delete_document d_id w)
        = Inl (Exception (NOT_FOUND_OPEN @ str_int d_id @ NOT_FOUND_CLOSE)) \<and>
      committed (snd (delete_document d_id w)) = committed w) \<and>
   (d_id \<in> doc_id ` set (documents (committed w)) \<longrightarrow>
      fst (delete_document d_id w) = Inr () \<and>
      documents (committed (snd (delete_document d_id w)))
        = filter (\<lambda>d. doc_id d \<noteq> d_id) (documents (committed w)) \<and>
      d_id \<notin> doc_id ` set (documents (committed (snd (delete_document d_id w)))))"
proof -
  have "(length (documents (committed w))
          - length (filter (\<lambda>d. doc_id d \<noteq> d_id) (documents (committed w))) = 0)
        \<longleftrightarrow> d_id \<notin> doc_id ` set (documents (committed w))"
    unfolding rowcount_zero_iff by auto
  then show ?thesis
    by (auto simp: delete_document_def Let_def logger_def)
qed

theorem delete_document_fails_or_commits_witness:
  "8 \<notin> doc_id ` set (documents (committed example_world)) \<and>
   fst (delete_document 8 example_world)
     = Inl (Exception (NOT_FOUND_OPEN @ ascii ''8'' @ NOT_FOUND_CLOSE)) \<and>
   committed (snd (delete_document 8 example_world)) = committed example_world \<and>
   7 \<in> doc_id ` set (documents (committed example_world)) \<and>
   fst (delete_document 7 example_world) = Inr () \<and>
   documents (committed (snd (delete_document 7 example_world))) = []"
proof -
  have a: "8 \<notin> doc_id ` set (documents (committed example_world))"
    and b: "7 \<in> doc_id ` set (documents (committed example_world))"
    by (simp_all add: example_world_def example_database_def example_document_def)
  have c: "str_int 8 = ascii ''8''"
    by (simp add: str_int_def digits.simps ascii_def)
  show ?thesis
    using a b c delete_document_fails_or_commits [of 8 example_world]
      delete_document_fails_or_commits [of 7 example_world]
    by (simp add: example_world_def example_database_def example_document_def)
qed

subsection \<open>Embeddings and the effects on the world\<close>

lemma get_embedding_failure:
  "embeddings_create rag txt = Inl m \<Longrightarrow>
   get_embedding rag txt w =
     (Inl (Exception (EMBEDDING_ERROR_PREFIX @ m)),
      logger ERROR (EmbeddingFailed m) (request (EmbeddingsCreate txt) w))"
  by (simp add: get_embedding_def)

lemma get_embedding_success:
  "embeddings_create rag txt = Inr e \<Longrightarrow>
   get_embedding rag txt w =
     (Inr e,
      if int (length e) \<noteq> embedding_dimensions rag
      then logger WARNING (EmbeddingSizeMismatch (length e) (embedding_dimensions rag))
             (request (EmbeddingsCreate txt) w)
      else request (EmbeddingsCreate txt) w)"
  by (simp add: get_embedding_def)

lemma committed_logger [simp]: "committed (logger lv ev w) = committed w"
  by (simp add: logger_def)

lemma committed_request [simp]: "committed (request c w) = committed w"
  by (simp add: request_def)

lemma seq_logger [simp]: "documents_id_seq (logger lv ev w) = documents_id_seq w"
  by (simp add: logger_def)

lemma seq_request [simp]: "documents_id_seq (request c w) = documents_id_seq w"
  by (simp add: request_def)

lemma calls_logger [simp]: "calls (logger lv ev w) = calls w"
  by (simp add: logger_def)

lemma calls_request [simp]: "calls (request c w) = calls w @ [c]"
  by (simp add: request_def)

lemma log_logger [simp]: "log (logger lv ev w) = log w @ [(lv, ev)]"
  by (simp add: logger_def)

lemma log_request [simp]: "log (request c w) = log w"
  by (simp add: request_def)

text \<open>
  Claim C4. When the embedding request of an ingest call fails, the call raises and
  nothing is persisted: the committed database, hence its document rows and its graph
  vertices, is the one before the call.
\<close>

theorem ingest_embedding_failure_atomic:
  assumes "embeddings_create rag content = Inl m"
  shows "fst (ingest_document rag content metadata w)
           = Inl (Exception (EMBEDDING_ERROR_PREFIX @ m)) \<and>
         committed (snd (ingest_document rag content metadata w)) = committed w \<and>
         documents (committed (snd (ingest_document rag content metadata w)))
           = documents (committed w) \<and>
         graph_nodes (committed (snd (ingest_document rag content metadata w)))
           = graph_nodes (committed w)"
  by (simp add: ingest_document_def Let_def get_embedding_failure [OF assms])

theorem ingest_embedding_failure_atomic_witness:
  "embeddings_create (example_rag\<lparr>embeddings_create := \<lambda>t. Inl (ascii ''timeout'')\<rparr>)
       (ascii ''new text'') = Inl (ascii ''timeout'') \<and>
   fst (ingest_document (example_rag\<lparr>embeddings_create := \<lambda>t. Inl (ascii ''timeout'')\<rparr>)
          (ascii ''new text'') None example_world)
     = Inl (Exception (EMBEDDING_ERROR_PREFIX @ ascii ''timeout'')) \<and>
   committed (snd (ingest_document (example_rag\<lparr>embeddings_create := \<lambda>t. Inl (ascii ''timeout'')\<rparr>)
          (ascii ''new text'') None example_world)) = example_database"
proof -
  have a: "embeddings_create (example_rag\<lparr>embeddings_create := \<lambda>t. Inl (ascii ''timeout'')\<rparr>)
       (ascii ''new text'') = Inl (ascii ''timeout'')"
    by simp
  show ?thesis
    using a ingest_embedding_failure_atomic [OF a, of None example_world]
    by (simp add: example_world_def)
qed

subsection \<open>What \<open>text\<close> finds in the statements\<close>

lemma digits_chars: "c \<in> set (digits n) \<Longrightarrow> 48 \<le> c \<and> c \<le> 57"
proof (induction n rule: digits.induct)
  case (1 n)
  show ?case
  proof (cases "n < 10")
    case True
    then show ?thesis using "1.prems" by (simp add: digits.simps [of n])
  next
    case False
    have "n mod 10 < 10" by simp
    then show ?thesis
      using False "1.prems" "1.IH" by (auto simp add: digits.simps [of n])
  qed
qed

lemma digits_nonempty: "digits n \<noteq> []"
  by (simp add: digits.simps [of n])

lemma str_int_no_colon: "58 \<notin> set (str_int i)"
proof
  assume "58 \<in> set (str_int i)"
  then have "58 \<in> set (digits (nat (- i))) \<or> 58 \<in> set (digits (nat i))"
    by (auto simp add: str_int_def split: if_splits)
  then show False
    using digits_chars [of 58] by auto
qed

lemma str_int_nonempty: "str_int i \<noteq> []"
  by (simp add: str_int_def digits_nonempty)

lemma placeholders_no_colon:
  "58 \<notin> set ds \<Longrightarrow> ds \<noteq> [] \<Longrightarrow> placeholders prev (ds @ b) = placeholders (last ds) b"
proof (induction ds arbitrary: prev)
  case Nil
  then show ?case by simp
next
  case (Cons c ds)
  then show ?case by (cases ds) auto
qed

lemma placeholders_append:
  assumes "a \<noteq> []" and "\<not> is_word (last a)" and "last a \<noteq> 58"
  shows "placeholders prev (a @ b) = placeholders prev a @ placeholders (last a) b"
  using assms
proof (induction a arbitrary: prev)
  case Nil
  then show ?case by simp
next
  case (Cons c a)
  show ?case
  proof (cases a)
    case Nil
    then show ?thesis using Cons.prems by simp
  next
    case (Cons d a')
    have mem: "last a \<in> set a" and nw: "\<not> is_word (last a)" and nc: "last a \<noteq> 58"
      using Cons Cons.prems by auto
    have tw: "takeWhile is_word (a @ b) = takeWhile is_word a"
      using mem nw by (rule takeWhile_append1)
    have dw: "dropWhile is_word (a @ b) = dropWhile is_word a @ b"
      using mem nw by (rule dropWhile_append1)
    have ne: "dropWhile is_word a \<noteq> []"
      using mem nw by (auto simp add: dropWhile_eq_Nil_conv)
    have flag: "(case dropWhile is_word (a @ b) of [] \<Rightarrow> False | n # rest \<Rightarrow> n = 58)
              = (case dropWhile is_word a of [] \<Rightarrow> False | n # rest \<Rightarrow> n = 58)"
      using ne unfolding dw by (cases "dropWhile is_word a") simp_all
    have ih: "placeholders c (a @ b) = placeholders c a @ placeholders (last a) b"
      using Cons.IH Cons Cons.prems by simp
    show ?thesis
      using tw flag ih Cons by simp
  qed
qed

lemma placeholders_prev:
  "s \<noteq> [] \<Longrightarrow> hd s \<noteq> 58 \<Longrightarrow> placeholders prev s = placeholders 32 s"
  by (cases s) simp_all

lemma placeholders_segment:
  assumes "a \<noteq> []" and "hd a \<noteq> 58" and "\<not> is_word (last a)" and "last a \<noteq> 58"
  shows "placeholders prev (a @ str_int dims @ b)
           = placeholders 32 a @ placeholders (last (str_int dims)) b"
proof -
  have "placeholders prev (a @ str_int dims @ b)
          = placeholders prev a @ placeholders (last a) (str_int dims @ b)"
    using assms(1,3,4) by (rule placeholders_append)
  also have "placeholders prev a = placeholders 32 a"
    using assms(1,2) by (rule placeholders_prev)
  also have "placeholders (last a) (str_int dims @ b) = placeholders (last (str_int dims)) b"
    using str_int_no_colon str_int_nonempty by (rule placeholders_no_colon)
  finally show ?thesis .
qed

lemma insert_document_segments:
  "INSERT_DOCUMENT_1 \<noteq> []" "hd INSERT_DOCUMENT_1 \<noteq> 58"
  "\<not> is_word (last INSERT_DOCUMENT_1)" "last INSERT_DOCUMENT_1 \<noteq> 58"
  "INSERT_DOCUMENT_2 \<noteq> []" "hd INSERT_DOCUMENT_2 \<noteq> 58"
  "placeholders 32 INSERT_DOCUMENT_1 = [(ascii ''content'', False), (ascii ''embedding'', True)]"
  "placeholders 32 INSERT_DOCUMENT_2 = [(ascii ''metadata'', True)]"
  by code_simp+

lemma placeholders_insert_document:
  "placeholders 32 (insert_document_sql dims)
     = [(ascii ''content'', False), (ascii ''embedding'', True), (ascii ''metadata'', True)]"
proof -
  have "placeholders 32 (insert_document_sql dims)
          = placeholders 32 INSERT_DOCUMENT_1
            @ placeholders (last (str_int dims)) INSERT_DOCUMENT_2"
    unfolding insert_document_sql_def
    using insert_document_segments(1-4) by (rule placeholders_segment)
  also have "placeholders (last (str_int dims)) INSERT_DOCUMENT_2
               = placeholders 32 INSERT_DOCUMENT_2"
    using insert_document_segments(5,6) by (rule placeholders_prev)
  finally show ?thesis
    by (simp add: insert_document_segments(7,8))
qed



lemma placeholders_other_statements:
  "placeholders 32 create_node_sql = []"
  "placeholders 32 match_sql = []"
  "placeholders 32 insert_node_sql
     = [(ascii ''doc_id'', False), (ascii ''node_id'', False), (ascii ''props'', False)]"
  "placeholders 32 delete_sql = [(ascii ''id'', False)]"
  by code_simp+

subsection \<open>Which statements the session executes\<close>

lemma names_distinct:
  "ascii ''content'' \<noteq> ascii ''embedding''" "ascii ''content'' \<noteq> ascii ''metadata''"
  "ascii ''threshold'' \<noteq> ascii ''embedding''" "ascii ''threshold'' \<noteq> ascii ''limit''"
  "ascii ''limit'' \<noteq> ascii ''embedding''"
  "ascii ''doc_id'' \<noteq> ascii ''node_id''" "ascii ''doc_id'' \<noteq> ascii ''props''"
  "ascii ''node_id'' \<noteq> ascii ''props''"
  by code_simp+

text \<open>
  The \<open>INSERT\<close> of \<open>ingest_document\<close> and the \<open>SELECT\<close> of \<open>query\<close> write their casts as
  \<open>:embedding::vector(n)\<close> and \<open>:metadata::jsonb\<close>. These names are followed by a colon,
  so \<open>text\<close> binds no value to them and the server is sent the colons: it refuses both
  statements, in every session and for every configured dimension.
\<close>

lemma execute_insert_document:
  "\<not> aborted s \<Longrightarrow>
   execute s (insert_document_sql dims)
     [ascii ''content'', ascii ''embedding'', ascii ''metadata''] failure
     = Some (SYNTAX_ERROR, s\<lparr>aborted := True\<rparr>)"
  by (simp add: execute_def bind_names_def unbound_names_def placeholders_insert_document)


text \<open>The other statements reach the server, which decides.\<close>

lemma execute_create_node:
  "execute s create_node_sql supplied failure
     = (if aborted s then Some (IN_FAILED_TRANSACTION, s)
        else case failure of None \<Rightarrow> None | Some m \<Rightarrow> Some (m, s\<lparr>aborted := True\<rparr>))"
  by (simp add: execute_def bind_names_def unbound_names_def placeholders_other_statements
      split: option.splits)

lemma execute_match:
  "execute s match_sql supplied failure
     = (if aborted s then Some (IN_FAILED_TRANSACTION, s)
        else case failure of None \<Rightarrow> None | Some m \<Rightarrow> Some (m, s\<lparr>aborted := True\<rparr>))"
  by (simp add: execute_def bind_names_def unbound_names_def placeholders_other_statements
      split: option.splits)

lemma execute_insert_node:
  "execute s insert_node_sql [ascii ''doc_id'', ascii ''node_id'', ascii ''props''] failure
     = (if aborted s then Some (IN_FAILED_TRANSACTION, s)
        else case failure of None \<Rightarrow> None | Some m \<Rightarrow> Some (m, s\<lparr>aborted := True\<rparr>))"
  by (simp add: execute_def bind_names_def unbound_names_def placeholders_other_statements
      split: option.splits)

lemma execute_delete:
  "execute s delete_sql [ascii ''id''] None
     = (if aborted s then Some (IN_FAILED_TRANSACTION, s) else None)"
  by (simp add: execute_def bind_names_def unbound_names_def placeholders_other_statements)

lemma begin_session_simps [simp]:
  "pending (begin_session w) = committed w" "\<not> aborted (begin_session w)"
  by (simp_all add: begin_session_def)

subsection \<open>Ingest and query as they are written\<close>

lemma ingest_document_raises:
  assumes "embeddings_create rag content = Inr e"
  shows "fst (ingest_document rag content metadata w) = Inl (Exception SYNTAX_ERROR)"
    and "committed (snd (ingest_document rag content metadata w)) = committed w"
  using assms
  by (simp_all add: ingest_document_def Let_def get_embedding_success execute_insert_document)

lemma ingest_document_never_returns:
  "fst (ingest_document rag content metadata w) \<noteq> Inr i"
proof (cases "embeddings_create rag content")
  case (Inl m)
  then show ?thesis
    by (simp add: ingest_document_def Let_def get_embedding_failure)
next
  case (Inr e)
  then show ?thesis
    by (simp add: ingest_document_raises)
qed




text \<open>
  Claim C2. A query that finds no document is to return the fixed answer, no sources and
  no graph context, without a request to the chat endpoint. The code does not get
  there: in the spec's scenario of an empty store and the question "anything" with
  threshold 0.5, the \<open>SELECT\<close> is refused and \<open>query\<close> raises. The only request sent is
  the embedding request.
\<close>

theorem query_empty_store_raises:
  "fst (query example_rag (ascii ''anything'') 5 True (1 / 2) empty_world)
     = Inl (Exception SYNTAX_ERROR) \<and>
   calls (snd (query example_rag (ascii ''anything'') 5 True (1 / 2) empty_world))
     = [EmbeddingsCreate (ascii ''anything'')] \<and>
   committed (snd (query example_rag (ascii ''anything'') 5 True (1 / 2) empty_world))
     = committed empty_world"
  by code_simp

subsection \<open>Graph vertices\<close>

lemma commit_aborted: "aborted s \<Longrightarrow> commit s w = w"
  by (simp add: commit_def)

lemma create_graph_nodes_statement_failure:
  assumes "\<not> aborted s"
    and "dict_get metadata source_key (JStr (ascii ''unknown'')) = JStr src"
    and "cypher_create_failure rag d_id = Some m \<or>
         (cypher_create_failure rag d_id = None \<and> insert_node_failure rag d_id = Some m)"
  shows "aborted (fst (create_graph_nodes rag s d_id content metadata w))"
    and "snd (create_graph_nodes rag s d_id content metadata w)
           = logger WARNING (GraphNodeFailed m) w"
    and "committed (commit (fst (create_graph_nodes rag s d_id content metadata w)) w1)
           = committed w1"
  using assms
  by (auto simp add: create_graph_nodes_def Let_def execute_create_node execute_insert_node
      commit_def)

text \<open>
  Claim C3. An ingest whose graph vertex cannot be created is to return the new id with
  the row committed. With a graph extension that refuses the \<open>CREATE\<close>,
  \<open>ingest_document\<close> raises at its \<open>INSERT\<close> and stores nothing; and
  \<open>_create_graph_nodes\<close>, called in a session where the row with id 8 is pending,
  logs its warning and leaves the transaction aborted, so that the \<open>commit\<close> which
  follows it in \<open>ingest_document\<close> stores nothing either.
\<close>

theorem ingest_graph_failure_loses_row:
  "fst (ingest_document graph_down (ascii ''new text'') None example_world)
     = Inl (Exception SYNTAX_ERROR) \<and>
   committed (snd (ingest_document graph_down (ascii ''new text'') None example_world))
     = example_database \<and>
   aborted (fst (create_graph_nodes graph_down pending_row 8 (ascii ''new text'') []
                  example_world)) \<and>
   log (snd (create_graph_nodes graph_down pending_row 8 (ascii ''new text'') []
                  example_world))
     = [(WARNING, GraphNodeFailed (ascii ''graph down''))] \<and>
   committed (commit (fst (create_graph_nodes graph_down pending_row 8 (ascii ''new text'') []
                             example_world))
                (snd (create_graph_nodes graph_down pending_row 8 (ascii ''new text'') []
                        example_world)))
     = example_database"
  by code_simp

subsection \<open>The size of an embedding\<close>




text \<open>
  A statement that the server could parse would still meet the cast to
  \<open>vector(embedding_dimensions)\<close>, which refuses a vector of another length.
\<close>

lemma vector_cast_refuses: "vector_cast n v \<noteq> None \<longleftrightarrow> int (length v) \<noteq> n"
  by (simp add: vector_cast_def)

subsection \<open>The graph context\<close>






subsection \<open>Generation failure\<close>




subsection \<open>The context block\<close>

lemma context_loop_enumerate:
  "context_loop idx docs parts
     = parts @ map (\<lambda>(i, doc). context_entry i doc) (enumerate idx docs)"
  by (induction docs arbitrary: idx parts) simp_all

lemma context_entry_explicit:
  "context_entry i doc =
     DOC_OPEN @ digits i @ DOC_RELEVANCE @ format_percent (hit_similarity doc) @ ascii '']'' @
     (case hit_metadata doc of
        None \<Rightarrow> []
      | Some md \<Rightarrow>
          if md = [] then []
          else SOURCE_OPEN @
               (case map_of md source_key of None \<Rightarrow> UNKNOWN_RU | Some v \<Rightarrow> str_jvalue v) @
               ascii '')'') @
     ascii '':'' @ [10] @ hit_content doc @ [10]"
  by (simp add: context_entry_def source_info_def dict_get_def Let_def
      split: option.splits)

lemma join_contains:
  "p \<in> set parts \<Longrightarrow> \<exists>pre post. join sep parts = pre @ p @ post"
proof (induction sep parts rule: join.induct)
  case (1 sep)
  then show ?case by simp
next
  case (2 sep q)
  then have "join sep [q] = [] @ p @ []" by simp
  then show ?case by blast
next
  case (3 sep q r rs)
  show ?case
  proof (cases "p = q")
    case True
    then have "join sep (q # r # rs) = [] @ p @ (sep @ join sep (r # rs))" by simp
    then show ?thesis by blast
  next
    case False
    then have "p \<in> set (r # rs)" using 3(2) by simp
    then obtain pre post where "join sep (r # rs) = pre @ p @ post"
      using 3(1) by blast
    then have "join sep (q # r # rs) = (q @ sep @ pre) @ p @ post" by simp
    then show ?thesis by blast
  qed
qed

lemma join_snoc:
  "parts \<noteq> [] \<Longrightarrow> join sep (parts @ [p]) = join sep parts @ sep @ p"
  by (induction sep parts rule: join.induct) auto

text \<open>
  Claim C6, amended. The context is the header and one entry per retrieved document,
  joined by line feeds. The entry of the document at position \<open>i\<close> (from 1) holds
  \<open>i\<close>, the similarity as a percentage with two decimals, and the full content; when
  the metadata of the document is a non-empty mapping it also holds the value of its
  \<open>source\<close> key, or the fallback word when the mapping has no such key; when the
  metadata is empty or null the entry names no source. A graph context that is present
  with a positive \<open>nodes_found\<close> adds a last line with that number.
\<close>

theorem build_context_layout:
  "build_context docs gc =
     join [10]
       ([CONTEXT_HEADER] @
        map (\<lambda>(i, doc).
               DOC_OPEN @ digits i @ DOC_RELEVANCE @ format_percent (hit_similarity doc) @
               ascii '']'' @
               (case hit_metadata doc of
                  None \<Rightarrow> []
                | Some md \<Rightarrow>
                    if md = [] then []
                    else SOURCE_OPEN @
                         (case map_of md source_key of
                            None \<Rightarrow> UNKNOWN_RU
                          | Some v \<Rightarrow> str_jvalue v) @
                         ascii '')'') @
               ascii '':'' @ [10] @ hit_content doc @ [10])
            (enumerate 1 docs) @
        (case gc of
           None \<Rightarrow> []
         | Some g \<Rightarrow>
             if 0 < nodes_found g then [GRAPH_OPEN @ digits (nodes_found g) @ GRAPH_CLOSE]
             else [])) \<and>
   (\<forall>g. gc = Some g \<longrightarrow> 0 < nodes_found g \<longrightarrow>
        (\<exists>pre. build_context docs gc
                 = pre @ [10] @ GRAPH_OPEN @ digits (nodes_found g) @ GRAPH_CLOSE))"
  (is "?layout \<and> ?summary")
proof -
  have loop: "context_loop 1 docs [CONTEXT_HEADER]
        = [CONTEXT_HEADER] @
          map (\<lambda>(i, doc).
               DOC_OPEN @ digits i @ DOC_RELEVANCE @ format_percent (hit_similarity doc) @
               ascii '']'' @
               (case hit_metadata doc of
                  None \<Rightarrow> []
                | Some md \<Rightarrow>
                    if md = [] then []
                    else SOURCE_OPEN @
                         (case map_of md source_key of
                            None \<Rightarrow> UNKNOWN_RU
                          | Some v \<Rightarrow> str_jvalue v) @
                         ascii '')'') @
               ascii '':'' @ [10] @ hit_content doc @ [10])
            (enumerate 1 docs)"
    unfolding context_loop_enumerate context_entry_explicit by simp
  have layout: "build_context docs gc =
     join [10] (context_loop 1 docs [CONTEXT_HEADER] @
        (case gc of
           None \<Rightarrow> []
         | Some g \<Rightarrow>
             if 0 < nodes_found g then [GRAPH_OPEN @ digits (nodes_found g) @ GRAPH_CLOSE]
             else []))"
    by (simp add: build_context_def Let_def split: option.splits)
  have last: "\<exists>pre. build_context docs gc
                 = pre @ [10] @ GRAPH_OPEN @ digits (nodes_found g) @ GRAPH_CLOSE"
    if "gc = Some g" and "0 < nodes_found g" for g
  proof -
    have nonempty: "context_loop 1 docs [CONTEXT_HEADER] \<noteq> []"
      unfolding context_loop_enumerate by simp
    have "build_context docs gc
        = join [10] (context_loop 1 docs [CONTEXT_HEADER] @
            [GRAPH_OPEN @ digits (nodes_found g) @ GRAPH_CLOSE])"
      unfolding layout using that by simp
    then have "build_context docs gc
        = join [10] (context_loop 1 docs [CONTEXT_HEADER]) @ [10] @
          GRAPH_OPEN @ digits (nodes_found g) @ GRAPH_CLOSE"
      unfolding join_snoc [OF nonempty] .
    then show ?thesis by blast
  qed
  have "?layout"
    unfolding layout loop by simp
  moreover have "?summary"
    using last by blast
  ultimately show ?thesis
    by (rule conjI)
qed

text \<open>In particular every retrieved document's entry occurs in the context.\<close>

lemma build_context_contains_entry:
  assumes "i < length docs"
  shows "py_in (context_entry (Suc i) (docs ! i)) (build_context docs gc)"
proof -
  let ?summary = "case gc of
           None \<Rightarrow> []
         | Some g \<Rightarrow>
             if 0 < nodes_found g then [GRAPH_OPEN @ digits (nodes_found g) @ GRAPH_CLOSE]
             else []"
  have parts: "build_context docs gc
      = join [10] (context_loop 1 docs [CONTEXT_HEADER] @ ?summary)"
    by (simp add: build_context_def Let_def split: option.splits)
  have "(Suc i, docs ! i) \<in> set (enumerate 1 docs)"
    using assms by (simp add: in_set_enumerate_eq)
  then have "context_entry (Suc i) (docs ! i) \<in> set (context_loop 1 docs [CONTEXT_HEADER])"
    unfolding context_loop_enumerate by force
  then have "context_entry (Suc i) (docs ! i)
       \<in> set (context_loop 1 docs [CONTEXT_HEADER] @ ?summary)"
    by simp
  then show ?thesis
    unfolding py_in_iff parts by (rule join_contains)
qed

theorem build_context_layout_witness:
  "build_context
     [example_hit,
      \<lparr>hit_id = 9, hit_content = ascii ''AGE'', hit_metadata = Some [(ascii ''page'', JInt 3)],
       hit_similarity = 1 / 4\<rparr>,
      \<lparr>hit_id = 3, hit_content = ascii ''RAG'',
       hit_metadata = Some [(source_key, JStr (ascii ''textbook''))], hit_similarity = 1 / 8\<rparr>]
     (Some \<lparr>nodes_found = 2, has_relationships = False, sample_nodes = 2\<rparr>)
   = CONTEXT_HEADER @ [10] @
     DOC_OPEN @ ascii ''1'' @ DOC_RELEVANCE @ ascii ''38.46%]:'' @ [10] @ ascii ''pgvector'' @ [10] @
     [10] @
     DOC_OPEN @ ascii ''2'' @ DOC_RELEVANCE @ ascii ''25.00%]'' @ SOURCE_OPEN @ UNKNOWN_RU @
       ascii ''):'' @ [10] @ ascii ''AGE'' @ [10] @
     [10] @
     DOC_OPEN @ ascii ''3'' @ DOC_RELEVANCE @ ascii ''12.50%]'' @ SOURCE_OPEN @ ascii ''textbook'' @
       ascii ''):'' @ [10] @ ascii ''RAG'' @ [10] @
     [10] @
     GRAPH_OPEN @ ascii ''2'' @ GRAPH_CLOSE"
  (is "build_context ?docs ?gc = ?text")
proof -
  note build_context_layout [of ?docs ?gc, THEN conjunct1]
  also have "join [10]
       ([CONTEXT_HEADER] @
        map (\<lambda>(i, doc).
               DOC_OPEN @ digits i @ DOC_RELEVANCE @ format_percent (hit_similarity doc) @
               ascii '']'' @
               (case hit_metadata doc of
                  None \<Rightarrow> []
                | Some md \<Rightarrow>
                    if md = [] then []
                    else SOURCE_OPEN @
                         (case map_of md source_key of
                            None \<Rightarrow> UNKNOWN_RU
                          | Some v \<Rightarrow> str_jvalue v) @
                         ascii '')'') @
               ascii '':'' @ [10] @ hit_content doc @ [10])
            (enumerate 1 ?docs) @
        (case ?gc of
           None \<Rightarrow> []
         | Some g \<Rightarrow>
             if 0 < nodes_found g then [GRAPH_OPEN @ digits (nodes_found g) @ GRAPH_CLOSE]
             else [])) = ?text"
    by code_simp
  finally show ?thesis .
qed

text \<open>
  Claim C6 says that every entry of the context shows the document's source or, when the
  \<open>source\<close> key is absent, the fallback word. For a document with an empty metadata
  mapping (what ingest stores when no metadata is given) the key is absent, yet the
  entry shows neither: the fallback word does not occur in the context.
\<close>

theorem build_context_no_fallback_counterexample:
  "hit_metadata example_hit = Some [] \<and>
   map_of ([] :: pydict) source_key = None \<and>
   build_context [example_hit] None
     = CONTEXT_HEADER @ [10] @ DOC_OPEN @ ascii ''1'' @ DOC_RELEVANCE @ ascii ''38.46%]:'' @ [10] @
       ascii ''pgvector'' @ [10] \<and>
   \<not> py_in UNKNOWN_RU (build_context [example_hit] None)"
  by code_simp

end
